theory Spec2Isabelle
  imports Complex_Main
begin

section \<open>Numbers of the program\<close>

text \<open>
  The timing-recovery loop of \<^verbatim>\<open>dsp_training/timing_recovery_demo.py\<close> computes with
  Python floats (doubles) and numpy complex numbers. A value of the program is modelled as
  either a finite number \<open>Fin x\<close>, taken as an exact real or complex number, or as the
  value \<open>NaN\<close>:
  \<^item> for a float, \<open>NaN\<close> is the IEEE not-a-number. The floats of the loop (\<open>tau\<close>,
    \<open>dtau\<close>, \<open>err\<close>, the kernel) are never infinite: the error is a hyperbolic tangent,
    the kernel a sinc, and the complex numbers whose product reaches \<^verbatim>\<open>np.tanh\<close> come out
    of \<^verbatim>\<open>complex64\<close> arrays, far below the range of a double.
  \<^item> for a complex number, \<open>NaN\<close> stands for every value that is not finite: one with
    a component that is NaN or infinite. An infinity can only enter through a sample or
    through a store into a \<^verbatim>\<open>complex64\<close> array (see \<open>complex64\<close> below). The loop
    multiplies complex numbers by the real kernel and by the integers -1, 0, 1 as complex
    numbers with imaginary part 0, so the first product of an infinite component is
    \<open>inf * 0\<close>, a NaN, and the real part that reaches \<^verbatim>\<open>np.tanh\<close> is a NaN.
  Every arithmetic operation of the loop returns \<open>NaN\<close> as soon as one operand is
  \<open>NaN\<close>. Rounding is not modelled, with one exception (\<open>tanh_double\<close> below): a finite
  result is the exact one.
\<close>

datatype 'a fl = Fin 'a | NaN

fun lift1 :: "('a \<Rightarrow> 'b) \<Rightarrow> 'a fl \<Rightarrow> 'b fl" where
  "lift1 f (Fin a) = Fin (f a)"
| "lift1 f NaN = NaN"

fun lift2 :: "('a \<Rightarrow> 'b \<Rightarrow> 'c) \<Rightarrow> 'a fl \<Rightarrow> 'b fl \<Rightarrow> 'c fl" where
  "lift2 f (Fin a) (Fin b) = Fin (f a b)"
| "lift2 f NaN y = NaN"
| "lift2 f x NaN = NaN"

fun finite_fl :: "'a fl \<Rightarrow> bool" where
  "finite_fl (Fin a) = True"
| "finite_fl NaN = False"

instantiation fl :: (zero) zero
begin
definition zero_fl :: "'a fl" where "zero_fl = Fin 0"
instance ..
end

instantiation fl :: (plus) plus
begin
definition plus_fl :: "'a fl \<Rightarrow> 'a fl \<Rightarrow> 'a fl" where "plus_fl x y = lift2 (+) x y"
instance ..
end

instantiation fl :: (minus) minus
begin
definition minus_fl :: "'a fl \<Rightarrow> 'a fl \<Rightarrow> 'a fl" where "minus_fl x y = lift2 (-) x y"
instance ..
end

instantiation fl :: (uminus) uminus
begin
definition uminus_fl :: "'a fl \<Rightarrow> 'a fl" where "uminus_fl x = lift1 uminus x"
instance ..
end

instantiation fl :: (times) times
begin
definition times_fl :: "'a fl \<Rightarrow> 'a fl \<Rightarrow> 'a fl" where "times_fl x y = lift2 (*) x y"
instance ..
end

instantiation fl :: (inverse) inverse
begin
definition inverse_fl :: "'a fl \<Rightarrow> 'a fl" where "inverse_fl x = lift1 inverse x"
definition divide_fl :: "'a fl \<Rightarrow> 'a fl \<Rightarrow> 'a fl" where "divide_fl x y = lift2 (/) x y"
instance ..
end

text \<open>\<^verbatim>\<open>np.sqrt\<close> of a negative float is NaN.\<close>

fun np_sqrt :: "real fl \<Rightarrow> real fl" where
  "np_sqrt (Fin a) = (if a < 0 then NaN else Fin (sqrt a))"
| "np_sqrt NaN = NaN"

text \<open>\<^verbatim>\<open>np.sinc(x)\<close> is \<open>sin (pi x) / (pi x)\<close>, and 1 at 0.\<close>

definition sinc :: "real \<Rightarrow> real" where
  "sinc x = (if x = 0 then 1 else sin (pi * x) / (pi * x))"

definition np_sinc :: "real fl \<Rightarrow> real fl" where
  "np_sinc x = lift1 sinc x"

text \<open>
  \<^verbatim>\<open>np.tanh\<close> returns a double. The doubles next to 1 are \<open>1 - 1 / 2 ^ 53\<close> and 1,
  so where \<open>tanh x\<close> is within \<open>1 / 2 ^ 54\<close> of 1 the result is exactly 1.0, and likewise
  at -1: the error detector saturates. Elsewhere the exact value is kept.
\<close>

definition tanh_double :: "real \<Rightarrow> real" where
  "tanh_double x =
    (if 1 - tanh x \<le> 1 / 2 ^ 54 then 1
     else if 1 + tanh x \<le> 1 / 2 ^ 54 then - 1
     else tanh x)"

definition np_tanh :: "real fl \<Rightarrow> real fl" where
  "np_tanh x = lift1 tanh_double x"

definition np_conj :: "complex fl \<Rightarrow> complex fl" where
  "np_conj z = lift1 cnj z"

text \<open>The attribute \<^verbatim>\<open>.real\<close> of a complex number.\<close>

definition real_part :: "complex fl \<Rightarrow> real fl" where
  "real_part z = lift1 Re z"

text \<open>A float that meets a complex number becomes a complex number.\<close>

definition to_complex :: "real fl \<Rightarrow> complex fl" where
  "to_complex x = lift1 complex_of_real x"

text \<open>
  A store into a \<^verbatim>\<open>complex64\<close> array (\<^verbatim>\<open>buf\<close>, \<^verbatim>\<open>mf_samples\<close>, \<^verbatim>\<open>tau_vect\<close>,
  \<^verbatim>\<open>dtau_vect\<close>) casts both components to \<^verbatim>\<open>float32\<close>. The largest \<^verbatim>\<open>float32\<close> is
  \<open>2 ^ 128 - 2 ^ 104\<close>; a double whose magnitude reaches \<open>2 ^ 128 - 2 ^ 103\<close> is cast
  to an infinity, and the stored value is not finite any more. A smaller double is kept as
  it is: the rounding of the cast is not modelled.
\<close>

definition float32_limit :: real where
  "float32_limit = 2 ^ 128 - 2 ^ 103"

fun complex64 :: "complex fl \<Rightarrow> complex fl" where
  "complex64 (Fin z) =
    (if \<bar>Re z\<bar> < float32_limit \<and> \<bar>Im z\<bar> < float32_limit then Fin z else NaN)"
| "complex64 NaN = NaN"

text \<open>\<^verbatim>\<open>np.hamming(M)[n] = 0.54 - 0.46 cos (2 pi n / (M - 1))\<close>.\<close>

definition hamming :: "nat \<Rightarrow> nat \<Rightarrow> real" where
  "hamming M n = 0.54 - 0.46 * cos (2 * pi * real n / real (M - 1))"

text \<open>\<^verbatim>\<open>np.dot\<close> of two vectors of the same length.\<close>

fun dot :: "complex fl list \<Rightarrow> complex fl list \<Rightarrow> complex fl" where
  "dot (x # xs) (y # ys) = x * y + dot xs ys"
| "dot xs ys = 0"

section \<open>The timing-recovery loop\<close>

text \<open>Lines 69 and 70: the time vector and the window of the interpolating filter.\<close>

definition th :: "real list" where
  "th = [-2, -1, 0, 1, 2]"

definition w :: "real list" where
  "w = map (\<lambda>n. sqrt (hamming 5 n)) [0..<5]"

text \<open>Line 60: \<^verbatim>\<open>sample_delay = int((len(th)-1)/2)\<close>.\<close>

definition sample_delay :: int where
  "sample_delay = (int (length th) - 1) div 2"

text \<open>Line 72: \<^verbatim>\<open>beta = 2*np.sqrt(alpha)\<close>.\<close>

definition beta :: "real \<Rightarrow> real fl" where
  "beta alpha = Fin 2 * np_sqrt (Fin alpha)"

text \<open>
  The variables of the loop. \<open>err\<close> is unbound (\<open>None\<close>) until the first strobe assigns it.
\<close>

record state =
  tau :: "real fl"
  dtau :: "real fl"
  buf :: "complex fl list"
  counter :: int
  mf_samples :: "complex fl list"
  buf_dz :: "complex fl list"
  dtau_vect :: "complex fl list"
  tau_vect :: "complex fl list"
  err :: "real fl option"

text \<open>Lines 66 to 78, for an input of \<open>n\<close> samples.\<close>

definition init :: "nat \<Rightarrow> state" where
  "init n = \<lparr> tau = 0, dtau = 0, buf = replicate 5 0, counter = sample_delay + 1,
     mf_samples = replicate n 0, buf_dz = [0, 0, 0],
     dtau_vect = replicate n 0, tau_vect = replicate n 0, err = None \<rparr>"

text \<open>
  \<^verbatim>\<open>b[:-1] = b[1:]\<close> followed by \<^verbatim>\<open>b[-1] = x\<close> (lines 82, 83 and 90, 91). The
  cast of line 83 is written where \<open>push\<close> is used.
\<close>

definition push :: "'a list \<Rightarrow> 'a \<Rightarrow> 'a list" where
  "push b x = (tl b @ [last b])[length b - 1 := x]"

text \<open>Line 86: \<^verbatim>\<open>hi = np.sinc(th - tau) * w\<close>.\<close>

definition hi :: "real fl \<Rightarrow> real fl list" where
  "hi t = map2 (\<lambda>a b. np_sinc (Fin a - t) * Fin b) th w"

text \<open>Line 87: \<^verbatim>\<open>np.dot(buf, np.flip(hi))\<close>.\<close>

definition interpolate :: "complex fl list \<Rightarrow> real fl \<Rightarrow> complex fl" where
  "interpolate b t = dot b (map to_complex (rev (hi t)))"

text \<open>Line 92: \<^verbatim>\<open>dz = -np.dot(buf_dz, np.array([-1, 0, 1]))\<close>.\<close>

definition derivative :: "complex fl list \<Rightarrow> complex fl" where
  "derivative b = - dot b [Fin (-1), Fin 0, Fin 1]"

text \<open>Line 101: \<^verbatim>\<open>np.tanh( (dz * np.conj(mf_samples[i-1])).real )\<close>.\<close>

definition ted :: "complex fl \<Rightarrow> complex fl \<Rightarrow> real fl" where
  "ted dz prev = np_tanh (real_part (dz * np_conj prev))"

text \<open>Lines 97 to 108: the branch taken when the counter has reached \<open>sps\<close>.\<close>

definition strobe :: "int \<Rightarrow> real \<Rightarrow> nat \<Rightarrow> complex fl \<Rightarrow> state \<Rightarrow> state" where
  "strobe sps alpha i dz s =
    (let s1 = s\<lparr>counter := counter s - sps\<rparr>;
         e = ted dz (mf_samples s1 ! (i - 1));
         s2 = s1\<lparr>err := Some e\<rparr>;
         s3 = s2\<lparr>tau := tau s2 + Fin alpha * e\<rparr>;
         s4 = s3\<lparr>dtau := dtau s3 + Fin alpha * e\<rparr>
     in s4\<lparr>tau := tau s4 + beta alpha * e\<rparr>)"

text \<open>
  Lines 81 to 108: the first part of the body of the loop at index \<open>i\<close>, up to the end
  of the strobe branch, for the oversampling ratio \<open>sps\<close> (\<^verbatim>\<open>samples_per_symbol\<close>),
  the loop gain \<open>alpha\<close> and the input \<open>xs\<close> (\<^verbatim>\<open>mf_samples_with_offset\<close>).
\<close>

definition before_drift :: "int \<Rightarrow> real \<Rightarrow> complex fl list \<Rightarrow> nat \<Rightarrow> state \<Rightarrow> state" where
  "before_drift sps alpha xs i s =
    (let s1 = s\<lparr>buf := push (buf s) (complex64 (xs ! i))\<rparr>;
         s2 = s1\<lparr>mf_samples :=
                  (mf_samples s1)[i := complex64 (interpolate (buf s1) (tau s1))]\<rparr>;
         s3 = s2\<lparr>buf_dz := push (buf_dz s2) (mf_samples s2 ! i)\<rparr>;
         dz = derivative (buf_dz s3);
         s4 = s3\<lparr>counter := counter s3 + 1\<rparr>
     in if counter s4 \<ge> sps then strobe sps alpha i dz s4 else s4)"

text \<open>
  Lines 81 to 115: the whole body, which ends with the drift of \<open>tau\<close> (line 111) and the
  two trajectories (lines 114 and 115). The loop only runs at indices \<open>1 \<le> i < len xs\<close>,
  and with \<open>sps\<close> different from 0 line 111 divides by a non-zero number.
\<close>

definition body :: "int \<Rightarrow> real \<Rightarrow> complex fl list \<Rightarrow> nat \<Rightarrow> state \<Rightarrow> state" where
  "body sps alpha xs i s =
    (let s5 = before_drift sps alpha xs i s;
         s6 = s5\<lparr>tau := tau s5 + dtau s5 / Fin (of_int sps)\<rparr>;
         s7 = s6\<lparr>dtau_vect := (dtau_vect s6)[i := complex64 (to_complex (dtau s6))]\<rparr>
     in s7\<lparr>tau_vect := (tau_vect s7)[i := complex64 (to_complex (tau s7))]\<rparr>)"

text \<open>Line 80: \<^verbatim>\<open>for i in range(1, len(mf_samples_with_offset))\<close>, from any state.\<close>

definition run :: "int \<Rightarrow> real \<Rightarrow> complex fl list \<Rightarrow> nat list \<Rightarrow> state \<Rightarrow> state" where
  "run sps alpha xs ns s = fold (body sps alpha xs) ns s"

definition timing_recovery :: "int \<Rightarrow> real \<Rightarrow> complex fl list \<Rightarrow> state" where
  "timing_recovery sps alpha xs = run sps alpha xs [1..<length xs] (init (length xs))"

text \<open>
  Lines 95 and 96: the cycle that starts in state \<open>s\<close> is a strobe when the advanced
  counter has reached \<open>sps\<close>.
\<close>

definition is_strobe :: "int \<Rightarrow> state \<Rightarrow> bool" where
  "is_strobe sps s = (sps \<le> counter s + 1)"

text \<open>The state at the end of cycle \<open>k\<close> of the loop; cycle 0 is the initial state.\<close>

definition state_after :: "int \<Rightarrow> real \<Rightarrow> complex fl list \<Rightarrow> nat \<Rightarrow> state" where
  "state_after sps alpha xs k = run sps alpha xs [1..<Suc k] (init (length xs))"

text \<open>
  The values that line 101 assigns to \<open>err\<close> while the cycles \<open>ns\<close> run from state
  \<open>s\<close>, one for each strobe cycle, in the order of the cycles.
\<close>

fun ted_outputs :: "int \<Rightarrow> real \<Rightarrow> complex fl list \<Rightarrow> nat list \<Rightarrow> state \<Rightarrow> real fl list" where
  "ted_outputs sps alpha xs [] s = []"
| "ted_outputs sps alpha xs (i # ns) s =
    (if is_strobe sps s
     then (case err (body sps alpha xs i s) of Some e \<Rightarrow> [e] | None \<Rightarrow> [])
     else []) @ ted_outputs sps alpha xs ns (body sps alpha xs i s)"

text \<open>
  The value that line 87 stores in cycle \<open>k\<close> of the loop on the input \<open>xs\<close>, when
  the loop has such a cycle: the cycles are \<open>1, \<dots>, len xs - 1\<close>.
\<close>

definition cycle_output :: "int \<Rightarrow> real \<Rightarrow> complex fl list \<Rightarrow> nat \<Rightarrow> complex fl option" where
  "cycle_output sps alpha xs k =
    (if 1 \<le> k \<and> k < length xs
     then Some (complex64 (interpolate (buf (state_after sps alpha xs k))
                  (tau (state_after sps alpha xs (k - 1)))))
     else None)"

text \<open>A sample that is finite, with both components of magnitude at most \<open>B\<close>.\<close>

fun sample_within :: "real \<Rightarrow> complex fl \<Rightarrow> bool" where
  "sample_within B (Fin z) = (\<bar>Re z\<bar> \<le> B \<and> \<bar>Im z\<bar> \<le> B)"
| "sample_within B NaN = False"



text \<open>The strobe cycles of the whole loop on the input \<open>xs\<close>.\<close>

definition strobe_cycles :: "int \<Rightarrow> real \<Rightarrow> complex fl list \<Rightarrow> nat list" where
  "strobe_cycles sps alpha xs =
    filter (\<lambda>i. is_strobe sps (state_after sps alpha xs (i - 1))) [1..<length xs]"

text \<open>Lines 21 and 71: the constants of the demo.\<close>

definition samples_per_symbol :: int where
  "samples_per_symbol = 4"

definition alpha_demo :: real where
  "alpha_demo = 0.005"


section \<open>The interpolating filter as the specification words it\<close>

text \<open>
  The specification describes the kernel as "a Hamming-windowed sinc evaluated at offsets
  {-2,-1,0,1,2} shifted by -tau": the sinc at the five offsets, each multiplied by the
  Hamming window at that tap.
\<close>

definition hamming_windowed_sinc :: "real fl \<Rightarrow> real fl list" where
  "hamming_windowed_sinc t =
    map (\<lambda>n. np_sinc (Fin (real n - 2) - t) * Fin (hamming 5 n)) [0..<5]"

section \<open>Arithmetic of the program's numbers\<close>


lemma fl_plus [simp]: "Fin a + Fin b = Fin (a + b)" "NaN + y = NaN" "x + NaN = NaN"
  by (cases x; simp add: plus_fl_def)+

lemma fl_minus [simp]: "Fin a - Fin b = Fin (a - b)" "NaN - y = NaN" "x - NaN = NaN"
  by (cases x; simp add: minus_fl_def)+

lemma fl_times [simp]: "Fin a * Fin b = Fin (a * b)" "NaN * y = NaN" "x * NaN = NaN"
  by (cases x; simp add: times_fl_def)+

lemma fl_divide [simp]: "Fin a / Fin b = Fin (a / b)" "NaN / y = NaN" "x / NaN = NaN"
  by (cases x; simp add: divide_fl_def)+

lemma fl_uminus [simp]: "- Fin a = Fin (- a)" "- (NaN :: 'a::uminus fl) = NaN"
  by (simp_all add: uminus_fl_def)

lemma sinc_int: "sinc (of_int k) = (if k = 0 then 1 else 0)"
  by (simp add: sinc_def mult.commute)

lemma hamming5: "hamming 5 0 = 0.08" "hamming 5 1 = 0.54" "hamming 5 2 = 1" "hamming 5 3 = 0.54" "hamming 5 4 = 0.08"
proof -
  have "3 * pi / 2 = 3 / 2 * pi" by simp
  then have "cos (3 * pi / 2) = 0" by (simp only: cos_3over2_pi)
  then show "hamming 5 0 = 0.08" "hamming 5 1 = 0.54" "hamming 5 2 = 1" "hamming 5 3 = 0.54" "hamming 5 4 = 0.08"
    by (simp_all add: hamming_def)
qed

lemma upt5: "[0..<5] = [0, 1, 2, 3, 4]"
  by code_simp

lemma w_eq: "w = [sqrt 0.08, sqrt 0.54, 1, sqrt 0.54, sqrt 0.08]"
  by (simp add: w_def upt5 hamming5 hamming5(2)[unfolded One_nat_def])


lemma hi0: "hi (Fin 0) = [Fin 0, Fin 0, Fin 1, Fin 0, Fin 0]"
  using sinc_int[of "-2"] sinc_int[of "-1"] sinc_int[of 0] sinc_int[of 1] sinc_int[of 2] 
  by (simp add: hi_def th_def w_eq np_sinc_def)


lemma replicate5: "replicate 5 x = [x, x, x, x, x]"
  by (simp add: numeral_eq_Suc)

lemma complex64_small: "\<bar>Re z\<bar> \<le> 2 ^ 127 \<Longrightarrow> \<bar>Im z\<bar> \<le> 2 ^ 127 \<Longrightarrow> complex64 (Fin z) = Fin z"
proof -
  have "(2::real) ^ 127 < float32_limit"
    by (simp add: float32_limit_def)
  then show "\<bar>Re z\<bar> \<le> 2 ^ 127 \<Longrightarrow> \<bar>Im z\<bar> \<le> 2 ^ 127 \<Longrightarrow> complex64 (Fin z) = Fin z"
    by simp
qed

lemma complex64_0 [simp]: "complex64 (Fin 0) = Fin 0"
  and complex64_1 [simp]: "complex64 (Fin 1) = Fin 1"
  and complex64_m1 [simp]: "complex64 (Fin (- 1)) = Fin (- 1)"
  and complex64_i [simp]: "complex64 (Fin \<i>) = Fin \<i>"
  by (simp_all add: float32_limit_def)

declare complex64.simps(1) [simp del]

lemma complex64_of_real: "\<bar>t\<bar> \<le> 1 \<Longrightarrow> complex64 (Fin (complex_of_real t)) = Fin (complex_of_real t)"
  by (intro complex64_small) simp_all

lemma complex64_finite: "finite_fl (complex64 x) \<Longrightarrow> complex64 x = x"
  by (cases x) (simp_all add: complex64.simps(1) split: if_splits)

text \<open>The hyperbolic tangent of the program away from its saturation, and in it.\<close>

lemma tanh_1_bound: "tanh (1::real) \<le> 4 / 5"
proof -
  have "exp (2::real) = exp 1 * exp 1"
    by (simp flip: exp_add)
  also have "\<dots> \<le> 3 * 3"
    by (intro mult_mono exp_le) simp_all
  finally have e: "exp (2::real) \<le> 9"
    by simp
  have "exp (- 2 * (1::real)) = inverse (exp 2)"
    by (simp add: exp_minus)
  moreover have "1 / 9 \<le> inverse (exp (2::real))"
    using e by (simp add: field_simps)
  ultimately have u: "1 / 9 \<le> exp (- 2 * (1::real))"
    by simp
  have "tanh (1::real) = (1 - exp (- 2 * 1)) / (1 + exp (- 2 * 1))"
    by (rule tanh_real_altdef)
  also have "\<dots> \<le> 4 / 5"
    using u by (simp add: field_simps)
  finally show ?thesis .
qed

lemma tanh_double_small: "\<bar>x\<bar> \<le> 1 \<Longrightarrow> tanh_double x = tanh x"
proof -
  assume x: "\<bar>x\<bar> \<le> 1"
  then have "x \<le> 1" and "- 1 \<le> x"
    by linarith+
  then have "tanh x \<le> tanh 1" and "tanh (- 1) \<le> tanh x"
    by (simp_all only: tanh_real_le_iff)
  moreover have "tanh (- 1) = - tanh (1::real)"
    by simp
  ultimately have "tanh x \<le> 4 / 5" and "- (4 / 5) \<le> tanh x"
    using tanh_1_bound by linarith+
  then have "\<not> 1 - tanh x \<le> 1 / 2 ^ 54" and "\<not> 1 + tanh x \<le> 1 / 2 ^ 54"
    by simp_all
  then show ?thesis
    by (simp add: tanh_double_def)
qed

lemma tanh_double_0 [simp]: "tanh_double 0 = 0"
  and tanh_double_1 [simp]: "tanh_double 1 = tanh 1"
  and tanh_double_m1 [simp]: "tanh_double (- 1) = - tanh 1"
  by (simp_all add: tanh_double_small)

lemma tanh_double_large:
  assumes "2 ^ 55 \<le> x"
  shows "tanh_double x = 1"
proof -
  have "0 < x"
    using assms by (rule less_le_trans[rotated]) simp
  have "1 + 2 * x \<le> exp (2 * x)"
    by (rule exp_ge_add_one_self)
  moreover have "(2::real) ^ 56 = 2 * 2 ^ 55"
    by simp
  ultimately have big: "2 ^ 56 < exp (2 * x)"
    using assms by linarith
  have "exp (- 2 * x) = inverse (exp (2 * x))"
    by (simp add: exp_minus)
  also have "\<dots> < inverse (2 ^ 56)"
    using big by (intro less_imp_inverse_less) simp_all
  finally have u: "exp (- 2 * x) < 1 / 2 ^ 56"
    by (simp add: field_simps)
  define v where "v = exp (- 2 * x)"
  have v0: "0 < v" and v1: "v < 1 / 2 ^ 56"
    using u by (simp_all add: v_def)
  have nz: "1 + v \<noteq> 0"
    using v0 by linarith
  have "tanh x = (1 - v) / (1 + v)"
    unfolding v_def by (rule tanh_real_altdef)
  then have "1 - tanh x = 2 * v / (1 + v)"
    using nz by (simp add: field_simps)
  also have "\<dots> \<le> 2 * v"
    using v0 by (simp add: field_simps)
  also have "\<dots> \<le> 1 / 2 ^ 54"
    using v1 by simp
  finally show ?thesis
    by (simp add: tanh_double_def)
qed



section \<open>One cycle of the loop\<close>

lemma counter_body:
  "counter (body sps alpha xs i s) = (if sps \<le> counter s + 1 then counter s + 1 - sps else counter s + 1)"
  by (simp add: body_def before_drift_def strobe_def Let_def)

lemma buf_body: "buf (body sps alpha xs i s) = push (buf s) (complex64 (xs ! i))"
  by (simp add: body_def before_drift_def strobe_def Let_def)

lemma mf_samples_body:
  "mf_samples (body sps alpha xs i s) =
    (mf_samples s)[i := complex64 (interpolate (push (buf s) (complex64 (xs ! i))) (tau s))]"
  by (simp add: body_def before_drift_def strobe_def Let_def)

lemma buf_dz_body:
  "buf_dz (body sps alpha xs i s) = push (buf_dz s) (mf_samples (body sps alpha xs i s) ! i)"
  by (simp add: body_def before_drift_def strobe_def Let_def)

lemma err_body:
  "err (body sps alpha xs i s) =
    (if sps \<le> counter s + 1
     then Some (ted (derivative (buf_dz (body sps alpha xs i s))) (mf_samples (body sps alpha xs i s) ! (i - 1)))
     else err s)"
  by (simp add: body_def before_drift_def strobe_def Let_def)

lemma dtau_body:
  "dtau (body sps alpha xs i s) =
    (if sps \<le> counter s + 1 then dtau s + Fin alpha * the (err (body sps alpha xs i s)) else dtau s)"
  by (simp add: body_def before_drift_def strobe_def Let_def)


lemma tau_vect_body:
  "tau_vect (body sps alpha xs i s) =
    (tau_vect s)[i := complex64 (to_complex (tau (body sps alpha xs i s)))]"
  by (simp add: body_def before_drift_def strobe_def Let_def)

lemma dtau_vect_body:
  "dtau_vect (body sps alpha xs i s) =
    (dtau_vect s)[i := complex64 (to_complex (dtau (body sps alpha xs i s)))]"
  by (simp add: body_def before_drift_def strobe_def Let_def)

lemma state_after_0: "state_after sps alpha xs 0 = init (length xs)"
  by (simp add: state_after_def run_def)

lemma state_after_Suc:
  "state_after sps alpha xs (Suc k) = body sps alpha xs (Suc k) (state_after sps alpha xs k)"
  by (simp add: state_after_def run_def)

lemma timing_recovery_state_after:
  "timing_recovery sps alpha xs = state_after sps alpha xs (length xs - 1)"
  by (cases xs) (simp_all add: timing_recovery_def state_after_def run_def)

section \<open>A run of the demo constants on a short input\<close>

lemma state_after_num:
  "0 < k \<Longrightarrow> state_after sps a xs k = body sps a xs k (state_after sps a xs (k - 1))"
  using state_after_Suc[of sps a xs "k - 1"] by simp

lemma alpha_demo_nonneg [simp]: "\<not> alpha_demo < 0"
  by (simp add: alpha_demo_def)

lemmas eval_defs = body_def before_drift_def strobe_def Let_def init_def push_def zero_fl_def
  replicate5 interpolate_def hi0 derivative_def ted_def to_complex_def np_conj_def np_tanh_def
  real_part_def sample_delay_def th_def beta_def samples_per_symbol_def is_strobe_def

lemma demo_after_4:
  "state_after samples_per_symbol alpha_demo [Fin 0, Fin 1, Fin 1, Fin 0, Fin 0, Fin 0, Fin 0] 4 =
    \<lparr>tau = Fin 0, dtau = Fin 0, buf = [Fin 0, Fin 1, Fin 1, Fin 0, Fin 0], counter = 3,
     mf_samples = [Fin 0, Fin 0, Fin 0, Fin 1, Fin 1, Fin 0, Fin 0],
     buf_dz = [Fin 0, Fin 1, Fin 1],
     dtau_vect = [Fin 0, Fin 0, Fin 0, Fin 0, Fin 0, Fin 0, Fin 0],
     tau_vect = [Fin 0, Fin 0, Fin 0, Fin 0, Fin 0, Fin 0, Fin 0],
     err = Some (Fin 0)\<rparr>"
  by (simp add: state_after_num state_after_0) (simp add: eval_defs numeral_eq_Suc)

lemma demo_before_drift_5:
  "before_drift samples_per_symbol alpha_demo [Fin 0, Fin 1, Fin 1, Fin 0, Fin 0, Fin 0, Fin 0] 5
    (state_after samples_per_symbol alpha_demo [Fin 0, Fin 1, Fin 1, Fin 0, Fin 0, Fin 0, Fin 0] 4) =
    \<lparr>tau = Fin (alpha_demo * tanh 1 + 2 * sqrt alpha_demo * tanh 1), dtau = Fin (alpha_demo * tanh 1),
     buf = [Fin 1, Fin 1, Fin 0, Fin 0, Fin 0], counter = 0,
     mf_samples = [Fin 0, Fin 0, Fin 0, Fin 1, Fin 1, Fin 0, Fin 0],
     buf_dz = [Fin 1, Fin 1, Fin 0],
     dtau_vect = [Fin 0, Fin 0, Fin 0, Fin 0, Fin 0, Fin 0, Fin 0],
     tau_vect = [Fin 0, Fin 0, Fin 0, Fin 0, Fin 0, Fin 0, Fin 0],
     err = Some (Fin (tanh 1))\<rparr>"
  by (simp add: demo_after_4) (simp add: eval_defs)

section \<open>The update of the loop filter on a strobe\<close>

lemma before_drift_strobe:
  assumes "is_strobe sps s"
  shows "err (before_drift sps alpha xs i s) \<noteq> None"
    and "dtau (before_drift sps alpha xs i s) =
           dtau s + Fin alpha * the (err (before_drift sps alpha xs i s))"
    and "tau (before_drift sps alpha xs i s) =
           tau s + Fin alpha * the (err (before_drift sps alpha xs i s))
                 + beta alpha * the (err (before_drift sps alpha xs i s))"
  using assms by (simp_all add: before_drift_def strobe_def Let_def is_strobe_def)

lemma before_drift_no_strobe:
  assumes "\<not> is_strobe sps s"
  shows "err (before_drift sps alpha xs i s) = err s"
    and "dtau (before_drift sps alpha xs i s) = dtau s"
    and "tau (before_drift sps alpha xs i s) = tau s"
  using assms by (simp_all add: before_drift_def strobe_def Let_def is_strobe_def)

lemma body_after_drift:
  shows "tau (body sps alpha xs i s) =
      tau (before_drift sps alpha xs i s) + dtau (before_drift sps alpha xs i s) / Fin (of_int sps)"
    and "dtau (body sps alpha xs i s) = dtau (before_drift sps alpha xs i s)"
    and "err (body sps alpha xs i s) = err (before_drift sps alpha xs i s)"
    and "counter (body sps alpha xs i s) = counter (before_drift sps alpha xs i s)"
  by (simp_all add: body_def Let_def)

text \<open>
  C1, as the program has it. On a strobe cycle the branch first adds \<open>alpha * err\<close> to
  \<open>tau\<close> (line 104), then adds \<open>alpha * err\<close> to \<open>dtau\<close> (line 107), then adds
  \<open>beta * err\<close> to \<open>tau\<close> (line 108), all with the one value of \<open>err\<close> that line 101
  computed: when line 111 is reached \<open>dtau\<close> has grown by \<open>alpha * err\<close> and \<open>tau\<close> by
  \<open>alpha * err + beta * err\<close>.
\<close>

theorem strobe_update:
  assumes "0 < sps" and "is_strobe sps s"
  shows "err (before_drift sps alpha xs i s) \<noteq> None \<and>
         dtau (before_drift sps alpha xs i s) =
           dtau s + Fin alpha * the (err (before_drift sps alpha xs i s)) \<and>
         tau (before_drift sps alpha xs i s) =
           tau s + Fin alpha * the (err (before_drift sps alpha xs i s))
                 + beta alpha * the (err (before_drift sps alpha xs i s))"
  using before_drift_strobe[OF assms(2)] by simp

theorem strobe_update_witness:
  "0 < samples_per_symbol \<and>
   is_strobe samples_per_symbol
     (state_after samples_per_symbol alpha_demo [Fin 0, Fin 1, Fin 1, Fin 0, Fin 0, Fin 0, Fin 0] 4) \<and>
   err (before_drift samples_per_symbol alpha_demo [Fin 0, Fin 1, Fin 1, Fin 0, Fin 0, Fin 0, Fin 0] 5
     (state_after samples_per_symbol alpha_demo [Fin 0, Fin 1, Fin 1, Fin 0, Fin 0, Fin 0, Fin 0] 4))
     = Some (Fin (tanh 1)) \<and>
   dtau (before_drift samples_per_symbol alpha_demo [Fin 0, Fin 1, Fin 1, Fin 0, Fin 0, Fin 0, Fin 0] 5
     (state_after samples_per_symbol alpha_demo [Fin 0, Fin 1, Fin 1, Fin 0, Fin 0, Fin 0, Fin 0] 4))
     = Fin 0 + Fin alpha_demo * Fin (tanh 1) \<and>
   tau (before_drift samples_per_symbol alpha_demo [Fin 0, Fin 1, Fin 1, Fin 0, Fin 0, Fin 0, Fin 0] 5
     (state_after samples_per_symbol alpha_demo [Fin 0, Fin 1, Fin 1, Fin 0, Fin 0, Fin 0, Fin 0] 4))
     = Fin 0 + Fin alpha_demo * Fin (tanh 1) + beta alpha_demo * Fin (tanh 1)"
proof -
  have pos: "0 < samples_per_symbol"
    by (simp add: samples_per_symbol_def)
  have st: "is_strobe samples_per_symbol
     (state_after samples_per_symbol alpha_demo [Fin 0, Fin 1, Fin 1, Fin 0, Fin 0, Fin 0, Fin 0] 4)"
    by (simp add: demo_after_4 is_strobe_def) (simp add: samples_per_symbol_def)
  show ?thesis
    using strobe_update[OF pos st, of alpha_demo "[Fin 0, Fin 1, Fin 1, Fin 0, Fin 0, Fin 0, Fin 0]" 5] pos st
    by (simp add: demo_before_drift_5) (simp add: demo_after_4)
qed

text \<open>
  The claim C1 as it is written fails on the fifth cycle of the run above, a strobe whose
  error is \<open>tanh 1\<close>: \<open>dtau\<close> has grown by \<open>alpha * err\<close>, but \<open>tau\<close> has not grown by
  \<open>beta * err\<close> only.
\<close>

theorem strobe_update_counterexample:
  "is_strobe samples_per_symbol
     (state_after samples_per_symbol alpha_demo [Fin 0, Fin 1, Fin 1, Fin 0, Fin 0, Fin 0, Fin 0] 4) \<and>
   err (before_drift samples_per_symbol alpha_demo [Fin 0, Fin 1, Fin 1, Fin 0, Fin 0, Fin 0, Fin 0] 5
     (state_after samples_per_symbol alpha_demo [Fin 0, Fin 1, Fin 1, Fin 0, Fin 0, Fin 0, Fin 0] 4))
     = Some (Fin (tanh 1)) \<and>
   tau (before_drift samples_per_symbol alpha_demo [Fin 0, Fin 1, Fin 1, Fin 0, Fin 0, Fin 0, Fin 0] 5
     (state_after samples_per_symbol alpha_demo [Fin 0, Fin 1, Fin 1, Fin 0, Fin 0, Fin 0, Fin 0] 4))
     \<noteq> tau (state_after samples_per_symbol alpha_demo
             [Fin 0, Fin 1, Fin 1, Fin 0, Fin 0, Fin 0, Fin 0] 4)
         + beta alpha_demo * Fin (tanh 1)"
proof -
  have "tanh (1::real) \<noteq> 0"
    by simp
  then have "alpha_demo * tanh 1 \<noteq> 0"
    by (simp add: alpha_demo_def)
  then show ?thesis
    by (simp add: demo_before_drift_5) (simp add: demo_after_4 is_strobe_def beta_def, simp add: samples_per_symbol_def)
qed

lemma demo_after_5:
  "tau (state_after samples_per_symbol alpha_demo [Fin 0, Fin 1, Fin 1, Fin 0, Fin 0, Fin 0, Fin 0] 5) =
     Fin (alpha_demo * tanh 1 + 2 * sqrt alpha_demo * tanh 1 + alpha_demo * tanh 1 / 4)"
  "dtau (state_after samples_per_symbol alpha_demo [Fin 0, Fin 1, Fin 1, Fin 0, Fin 0, Fin 0, Fin 0] 5) =
     Fin (alpha_demo * tanh 1)"
  "buf (state_after samples_per_symbol alpha_demo [Fin 0, Fin 1, Fin 1, Fin 0, Fin 0, Fin 0, Fin 0] 5) =
     [Fin 1, Fin 1, Fin 0, Fin 0, Fin 0]"
  "counter (state_after samples_per_symbol alpha_demo [Fin 0, Fin 1, Fin 1, Fin 0, Fin 0, Fin 0, Fin 0] 5) = 0"
  "mf_samples (state_after samples_per_symbol alpha_demo [Fin 0, Fin 1, Fin 1, Fin 0, Fin 0, Fin 0, Fin 0] 5) =
     [Fin 0, Fin 0, Fin 0, Fin 1, Fin 1, Fin 0, Fin 0]"
  "buf_dz (state_after samples_per_symbol alpha_demo [Fin 0, Fin 1, Fin 1, Fin 0, Fin 0, Fin 0, Fin 0] 5) =
     [Fin 1, Fin 1, Fin 0]"
  "err (state_after samples_per_symbol alpha_demo [Fin 0, Fin 1, Fin 1, Fin 0, Fin 0, Fin 0, Fin 0] 5) =
     Some (Fin (tanh 1))"
  by (simp_all add: state_after_num[of 5] body_def demo_before_drift_5)
     (simp_all add: samples_per_symbol_def)

section \<open>The drift of tau\<close>

text \<open>
  C2. Line 111 runs in every cycle, after the strobe branch if it was taken: \<open>tau\<close> grows by
  \<open>dtau / sps\<close>, with the value \<open>dtau\<close> has at that point, and \<open>dtau\<close> is not changed.
  On a cycle that is not a strobe nothing else has changed \<open>tau\<close> or \<open>dtau\<close>.
\<close>

theorem drift_update:
  assumes "0 < sps"
  shows "tau (body sps alpha xs i s) =
           tau (before_drift sps alpha xs i s)
             + dtau (before_drift sps alpha xs i s) / Fin (of_int sps) \<and>
         dtau (body sps alpha xs i s) = dtau (before_drift sps alpha xs i s) \<and>
         (\<not> is_strobe sps s \<longrightarrow>
            tau (body sps alpha xs i s) = tau s + dtau s / Fin (of_int sps) \<and>
            dtau (body sps alpha xs i s) = dtau s)"
  by (simp add: body_after_drift before_drift_no_strobe)

theorem drift_update_witness:
  "0 < samples_per_symbol \<and>
   \<not> is_strobe samples_per_symbol
     (state_after samples_per_symbol alpha_demo [Fin 0, Fin 1, Fin 1, Fin 0, Fin 0, Fin 0, Fin 0] 5) \<and>
   tau (body samples_per_symbol alpha_demo [Fin 0, Fin 1, Fin 1, Fin 0, Fin 0, Fin 0, Fin 0] 6
     (state_after samples_per_symbol alpha_demo [Fin 0, Fin 1, Fin 1, Fin 0, Fin 0, Fin 0, Fin 0] 5))
     = Fin (alpha_demo * tanh 1 + 2 * sqrt alpha_demo * tanh 1 + alpha_demo * tanh 1 / 4)
       + Fin (alpha_demo * tanh 1) / Fin 4 \<and>
   dtau (body samples_per_symbol alpha_demo [Fin 0, Fin 1, Fin 1, Fin 0, Fin 0, Fin 0, Fin 0] 6
     (state_after samples_per_symbol alpha_demo [Fin 0, Fin 1, Fin 1, Fin 0, Fin 0, Fin 0, Fin 0] 5))
     = Fin (alpha_demo * tanh 1)"
proof -
  have pos: "0 < samples_per_symbol"
    by (simp add: samples_per_symbol_def)
  have ns: "\<not> is_strobe samples_per_symbol
     (state_after samples_per_symbol alpha_demo [Fin 0, Fin 1, Fin 1, Fin 0, Fin 0, Fin 0, Fin 0] 5)"
    by (simp add: demo_after_5 is_strobe_def) (simp add: samples_per_symbol_def)
  have t5: "tau (state_after samples_per_symbol alpha_demo
      [Fin 0, Fin 1, Fin 1, Fin 0, Fin 0, Fin 0, Fin 0] 5) =
      Fin (alpha_demo * tanh 1 + 2 * sqrt alpha_demo * tanh 1 + alpha_demo * tanh 1 / 4)"
    by (simp add: demo_after_5)
  have d5: "dtau (state_after samples_per_symbol alpha_demo
      [Fin 0, Fin 1, Fin 1, Fin 0, Fin 0, Fin 0, Fin 0] 5) = Fin (alpha_demo * tanh 1)"
    by (simp add: demo_after_5)
  have four: "Fin (real_of_int samples_per_symbol) = Fin 4"
    by (simp add: samples_per_symbol_def)
  have "tau (body samples_per_symbol alpha_demo [Fin 0, Fin 1, Fin 1, Fin 0, Fin 0, Fin 0, Fin 0] 6
          (state_after samples_per_symbol alpha_demo [Fin 0, Fin 1, Fin 1, Fin 0, Fin 0, Fin 0, Fin 0] 5)) =
        tau (state_after samples_per_symbol alpha_demo [Fin 0, Fin 1, Fin 1, Fin 0, Fin 0, Fin 0, Fin 0] 5)
        + dtau (state_after samples_per_symbol alpha_demo [Fin 0, Fin 1, Fin 1, Fin 0, Fin 0, Fin 0, Fin 0] 5)
          / Fin (of_int samples_per_symbol)"
    and "dtau (body samples_per_symbol alpha_demo [Fin 0, Fin 1, Fin 1, Fin 0, Fin 0, Fin 0, Fin 0] 6
          (state_after samples_per_symbol alpha_demo [Fin 0, Fin 1, Fin 1, Fin 0, Fin 0, Fin 0, Fin 0] 5)) =
        dtau (state_after samples_per_symbol alpha_demo [Fin 0, Fin 1, Fin 1, Fin 0, Fin 0, Fin 0, Fin 0] 5)"
    using drift_update[OF pos, of alpha_demo "[Fin 0, Fin 1, Fin 1, Fin 0, Fin 0, Fin 0, Fin 0]" 6
        "state_after samples_per_symbol alpha_demo [Fin 0, Fin 1, Fin 1, Fin 0, Fin 0, Fin 0, Fin 0] 5"] ns
    by blast+
  then show ?thesis
    using pos ns by (simp only: t5 d5 four) simp
qed

section \<open>The strobe counter\<close>

lemma ted_outputs_single:
  "length (ted_outputs sps alpha xs [i] s) = (if sps \<le> counter s + 1 then 1 else 0)"
  by (auto simp: is_strobe_def err_body)

text \<open>
  C6. Every cycle adds 1 to the counter and then compares it with \<open>sps\<close>. The cycle is a
  strobe exactly when the advanced counter has reached \<open>sps\<close>; then \<open>sps\<close> is subtracted
  once (also when the counter is still not below \<open>sps\<close> afterwards), the error detector
  produces one value and the loop filter is updated once with it. Otherwise the counter
  keeps the advanced value, and \<open>err\<close> and \<open>dtau\<close> are not touched.
\<close>

theorem strobe_counter:
  assumes "0 < sps"
  shows "counter (body sps alpha xs i s) =
           (if sps \<le> counter s + 1 then counter s + 1 - sps else counter s + 1) \<and>
         length (ted_outputs sps alpha xs [i] s) = (if sps \<le> counter s + 1 then 1 else 0) \<and>
         (sps \<le> counter s + 1 \<longrightarrow>
            err (body sps alpha xs i s) \<noteq> None \<and>
            dtau (body sps alpha xs i s) = dtau s + Fin alpha * the (err (body sps alpha xs i s))) \<and>
         (\<not> sps \<le> counter s + 1 \<longrightarrow>
            err (body sps alpha xs i s) = err s \<and> dtau (body sps alpha xs i s) = dtau s)"
  by (simp add: counter_body ted_outputs_single err_body dtau_body del: ted_outputs.simps)

theorem strobe_counter_witness:
  "(0::int) < 2 \<and> (2::int) \<le> counter (init 2) + 1 \<and>
   counter (body 2 alpha_demo [Fin 0, Fin 1] 1 (init 2)) = 2 \<and>
   length (ted_outputs 2 alpha_demo [Fin 0, Fin 1] [1] (init 2)) = 1 \<and>
   err (body 2 alpha_demo [Fin 0, Fin 1] 1 (init 2)) \<noteq> None \<and>
   (0::int) < 4 \<and> \<not> (4::int) \<le> counter (body 2 alpha_demo [Fin 0, Fin 1] 1 (init 2)) + 1 \<and>
   counter (body 4 alpha_demo [Fin 0, Fin 1] 1 (body 2 alpha_demo [Fin 0, Fin 1] 1 (init 2))) = 3 \<and>
   length (ted_outputs 4 alpha_demo [Fin 0, Fin 1] [1] (body 2 alpha_demo [Fin 0, Fin 1] 1 (init 2))) = 0"
proof -
  have c0: "counter (init 2) = 3"
    by (simp add: init_def sample_delay_def th_def)
  have c1: "counter (body 2 alpha_demo [Fin 0, Fin 1] 1 (init 2)) = 2"
    using strobe_counter[of 2 alpha_demo "[Fin 0, Fin 1]" 1 "init 2"] c0 by simp
  show ?thesis
    using strobe_counter[of 2 alpha_demo "[Fin 0, Fin 1]" 1 "init 2"]
      strobe_counter[of 4 alpha_demo "[Fin 0, Fin 1]" 1 "body 2 alpha_demo [Fin 0, Fin 1] 1 (init 2)"]
      c0 c1
    by simp
qed

section \<open>The number of strobes\<close>

lemma counter_init: "counter (init n) = 3"
  by (simp add: init_def sample_delay_def th_def)

lemma counter_state_after_Suc:
  "counter (state_after sps alpha xs (Suc k)) =
    (if is_strobe sps (state_after sps alpha xs k)
     then counter (state_after sps alpha xs k) + 1 - sps
     else counter (state_after sps alpha xs k) + 1)"
  by (simp add: state_after_Suc counter_body is_strobe_def)

text \<open>The strobes among the first \<open>k\<close> cycles.\<close>

lemma strobes_upto_Suc:
  "filter (\<lambda>i. is_strobe sps (state_after sps alpha xs (i - 1))) [1..<Suc (Suc k)] =
   filter (\<lambda>i. is_strobe sps (state_after sps alpha xs (i - 1))) [1..<Suc k] @
     (if is_strobe sps (state_after sps alpha xs k) then [Suc k] else [])"
  by simp

lemma counter_invariant:
  assumes "0 < sps"
  shows "counter (state_after sps alpha xs k)
           + sps * int (length (filter (\<lambda>i. is_strobe sps (state_after sps alpha xs (i - 1))) [1..<Suc k]))
           = 3 + int k \<and>
         0 \<le> counter (state_after sps alpha xs k) \<and>
         (counter (state_after sps alpha xs k) < sps \<or>
          length (filter (\<lambda>i. is_strobe sps (state_after sps alpha xs (i - 1))) [1..<Suc k]) = k)"
proof (induction k)
  case 0
  then show ?case by (simp add: state_after_0 counter_init)
next
  case (Suc k)
  let ?c = "counter (state_after sps alpha xs k)"
  let ?n = "length (filter (\<lambda>i. is_strobe sps (state_after sps alpha xs (i - 1))) [1..<Suc k])"
  from Suc.IH have eq: "?c + sps * int ?n = 3 + int k" and nn: "0 \<le> ?c" and alt: "?c < sps \<or> ?n = k"
    by blast+
  show ?case
  proof (cases "is_strobe sps (state_after sps alpha xs k)")
    case True
    then have ge: "sps \<le> ?c + 1" by (simp add: is_strobe_def)
    have c': "counter (state_after sps alpha xs (Suc k)) = ?c + 1 - sps"
      using True by (simp add: counter_state_after_Suc)
    have n': "length (filter (\<lambda>i. is_strobe sps (state_after sps alpha xs (i - 1))) [1..<Suc (Suc k)]) = Suc ?n"
      using True by (simp only: strobes_upto_Suc) simp
    have "?c + 1 - sps + sps * int (Suc ?n) = 3 + int (Suc k)"
      using eq by (simp add: algebra_simps)
    moreover have "0 \<le> ?c + 1 - sps" using ge by simp
    moreover have "?c + 1 - sps < sps \<or> Suc ?n = Suc k"
      using alt assms by auto
    ultimately show ?thesis
      by (simp only: c' n') 
  next
    case False
    then have lt: "?c + 1 < sps" by (simp add: is_strobe_def)
    have c': "counter (state_after sps alpha xs (Suc k)) = ?c + 1"
      using False by (simp add: counter_state_after_Suc)
    have n': "length (filter (\<lambda>i. is_strobe sps (state_after sps alpha xs (i - 1))) [1..<Suc (Suc k)]) = ?n"
      using False by (simp only: strobes_upto_Suc) simp
    have "?c + 1 + sps * int ?n = 3 + int (Suc k)"
      using eq by simp
    moreover have "0 \<le> ?c + 1" using nn by simp
    ultimately show ?thesis
      using lt by (simp only: c' n') simp
  qed
qed

lemma strobe_count_arith:
  fixes R c :: int and n N :: nat
  assumes R: "0 < R" and eq: "c + R * int n = 3 + int N" and nn: "0 \<le> c"
    and alt: "c < R \<or> n = N" and le: "n \<le> N"
  shows "\<bar>int n - (int N + 1) div R\<bar> \<le> 1"
proof -
  define q where "q = (int N + 1) div R"
  have "int N + 1 = q * R + (int N + 1) mod R"
    unfolding q_def by simp
  moreover have "0 \<le> (int N + 1) mod R" and "(int N + 1) mod R < R"
    using R by simp_all
  ultimately have q1: "q * R \<le> int N + 1" and q2: "int N + 1 < q * R + R"
    by linarith+
  have upper: "int n \<le> q + 1"
  proof (rule ccontr)
    assume "\<not> int n \<le> q + 1"
    then have "q + 2 \<le> int n" by simp
    then have "(q + 2) * R \<le> int n * R"
      using R by (simp add: mult_right_mono)
    then have "q * R + 2 * R \<le> 3 + int N - c"
      using eq by (simp add: algebra_simps)
    with q2 nn have "R < 2" by simp
    with R have R1: "R = 1" by simp
    with q1 q2 have "q = int N + 1" by simp
    with \<open>q + 2 \<le> int n\<close> le show False by simp
  qed
  have lower: "q - 1 \<le> int n"
  proof (cases "c < R")
    case True
    have "(q - 1) * R < int n * R"
      using eq True q1 by (simp add: algebra_simps)
    then have "q - 1 < int n"
      using R by (simp add: mult_less_cancel_right)
    then show ?thesis by simp
  next
    case False
    with alt have "n = N" by simp
    moreover have "q \<le> int N + 1"
    proof (cases "q < 0")
      case True
      then show ?thesis by simp
    next
      case False
      then have "q * 1 \<le> q * R"
        using R by (intro mult_left_mono) simp_all
      with q1 show ?thesis by simp
    qed
    ultimately show ?thesis by simp
  qed
  from upper lower show ?thesis
    unfolding q_def by simp
qed

text \<open>
  C7. With the counter starting at the group delay of the interpolating filter plus one
  (3), the number of strobe cycles on an input of \<open>L\<close> samples differs from
  \<open>L div sps\<close> by at most 1, for every oversampling ratio \<open>sps \<ge> 1\<close>.
\<close>

theorem strobe_count:
  assumes "0 < sps"
  shows "\<bar>int (length (strobe_cycles sps alpha xs)) - int (length xs) div sps\<bar> \<le> 1"
proof (cases xs)
  case Nil
  then show ?thesis by (simp add: strobe_cycles_def)
next
  case (Cons x ys)
  let ?n = "length (filter (\<lambda>i. is_strobe sps (state_after sps alpha xs (i - 1))) [1..<Suc (length ys)])"
  have n: "length (strobe_cycles sps alpha xs) = ?n"
    using Cons by (simp add: strobe_cycles_def)
  have le: "?n \<le> length ys"
    using length_filter_le[of "\<lambda>i. is_strobe sps (state_after sps alpha xs (i - 1))" "[1..<Suc (length ys)]"]
    by (simp del: upt_Suc)
  have "\<bar>int ?n - (int (length ys) + 1) div sps\<bar> \<le> 1"
    using counter_invariant[OF assms, of alpha xs "length ys"] le
    by (intro strobe_count_arith[OF assms, of "counter (state_after sps alpha xs (length ys))"]) blast+
  moreover have "int (length xs) = int (length ys) + 1"
    using Cons by simp
  ultimately show ?thesis
    by (simp only: n)
qed

theorem strobe_count_witness:
  "0 < samples_per_symbol \<and>
   \<bar>int (length (strobe_cycles samples_per_symbol alpha_demo
          [Fin 0, Fin 1, Fin 1, Fin 0, Fin 0, Fin 0, Fin 0]))
     - int (length [Fin 0, Fin 1, Fin 1, Fin 0, Fin 0, Fin 0, Fin (0::complex)]) div samples_per_symbol\<bar> \<le> 1"
proof -
  have pos: "0 < samples_per_symbol"
    by (simp add: samples_per_symbol_def)
  show ?thesis
    using strobe_count[OF pos, of alpha_demo "[Fin 0, Fin 1, Fin 1, Fin 0, Fin 0, Fin 0, Fin 0]"] pos
    by simp
qed

lemma hi_Fin:
  "hi (Fin t) = [Fin (sinc (- 2 - t) * sqrt 0.08), Fin (sinc (- 1 - t) * sqrt 0.54),
     Fin (sinc (- t)), Fin (sinc (1 - t) * sqrt 0.54), Fin (sinc (2 - t) * sqrt 0.08)]"
  by (simp add: hi_def th_def w_eq np_sinc_def)

section \<open>The rate estimate under a constant error\<close>


lemma fl_add_zero [simp]: "x + Fin (0::real) = x"
  by (cases x) simp_all






lemma tanh_double_2_60 [simp]: "tanh_double 1152921504606846976 = 1"
  by (rule tanh_double_large) simp

lemma complex64_2_60 [simp]: "complex64 (Fin (- 1152921504606846976)) = Fin (- 1152921504606846976)"
  by (rule complex64_small) simp_all

lemma sinc_at_integers [simp]:
  "sinc 0 = 1" "sinc 1 = 0" "sinc (- 1) = 0" "sinc 2 = 0" "sinc (- 2) = 0"
  using sinc_int[of 0] sinc_int[of 1] sinc_int[of "- 1"] sinc_int[of 2] sinc_int[of "- 2"]
  by simp_all


section \<open>Samples within the range of the buffers keep the loop finite\<close>

lemma push_eq: "push b x = tl b @ [x]"
proof (cases b)
  case Nil
  then show ?thesis by (simp add: push_def)
next
  case (Cons a as)
  then show ?thesis by (simp add: push_def list_update_append)
qed











lemma sample_within_mono: "sample_within B x \<Longrightarrow> B \<le> C \<Longrightarrow> sample_within C x"
  by (cases x) simp_all

text \<open>The taps of the kernel are real numbers of magnitude at most 1.\<close>

lemma abs_sinc_le_1: "\<bar>sinc x\<bar> \<le> 1"
proof (cases "x = 0")
  case True
  then show ?thesis by (simp add: sinc_def)
next
  case False
  have "\<bar>sin (pi * x)\<bar> \<le> \<bar>pi * x\<bar>"
    by (rule abs_sin_x_le_abs_x)
  with False show ?thesis
    by (simp add: sinc_def abs_mult field_simps)
qed

lemma abs_tap_le_1: "0 \<le> v \<Longrightarrow> v \<le> 1 \<Longrightarrow> \<bar>sinc x * v\<bar> \<le> 1"
proof -
  assume v: "0 \<le> v" "v \<le> 1"
  have "\<bar>sinc x * v\<bar> = \<bar>sinc x\<bar> * v"
    using v by (simp add: abs_mult)
  also have "\<dots> \<le> 1 * 1"
    using v abs_sinc_le_1[of x] by (intro mult_mono) simp_all
  finally show ?thesis by simp
qed











lemma run_append: "run sps alpha xs (ns @ ms) s = run sps alpha xs ms (run sps alpha xs ns s)"
  by (simp add: run_def)





lemma complex64_overflow [simp]: "complex64 (Fin 1361129467683753853853498429727072845824) = NaN"
  by (simp add: complex64.simps(1) float32_limit_def)



section \<open>The timing-error detector\<close>

lemma length_mf_samples_state_after:
  "length (mf_samples (state_after sps alpha xs k)) = length xs"
  by (induction k) (simp_all add: state_after_0 state_after_Suc mf_samples_body init_def)

lemma mf_samples_current:
  assumes "Suc k < length xs"
  shows "mf_samples (state_after sps alpha xs (Suc k)) ! Suc k =
    complex64 (interpolate (buf (state_after sps alpha xs (Suc k))) (tau (state_after sps alpha xs k)))"
  using assms
  by (simp add: state_after_Suc mf_samples_body buf_body length_mf_samples_state_after)

lemma mf_samples_previous:
  "mf_samples (state_after sps alpha xs (Suc k)) ! k = mf_samples (state_after sps alpha xs k) ! k"
  by (simp add: state_after_Suc mf_samples_body)

lemma mf_samples_first:
  assumes "0 < length xs"
  shows "mf_samples (state_after sps alpha xs 0) ! 0 = 0"
  using assms by (simp add: state_after_0 init_def)

lemma cycle_output_stored:
  assumes "1 \<le> k" and "k < length xs"
  shows "cycle_output sps alpha xs k = Some (mf_samples (state_after sps alpha xs k) ! k)"
proof -
  from assms(1) obtain j where k: "k = Suc j"
    by (cases k) simp_all
  show ?thesis
    using assms mf_samples_current[of j xs sps alpha] unfolding k
    by (simp add: cycle_output_def)
qed

lemma previous_output:
  assumes "1 \<le> i" and "i < length xs"
  shows "mf_samples (state_after sps alpha xs i) ! (i - 1) =
    (case cycle_output sps alpha xs (i - 1) of Some y \<Rightarrow> y | None \<Rightarrow> 0)"
proof (cases "i = 1")
  case True
  from assms have "0 < length xs"
    by linarith
  from mf_samples_first[OF this, of sps alpha] show ?thesis
    unfolding True using mf_samples_previous[of sps alpha xs 0] by (simp add: cycle_output_def)
next
  case False
  with assms obtain j where i: "i = Suc (Suc j)"
    by (cases i; cases "i - 1") simp_all
  have "cycle_output sps alpha xs (Suc j) = Some (mf_samples (state_after sps alpha xs (Suc j)) ! Suc j)"
    using assms unfolding i by (intro cycle_output_stored) simp_all
  then show ?thesis
    unfolding i using mf_samples_previous[of sps alpha xs "Suc j"] by simp
qed

lemma ted_Fin: "ted (Fin z) (Fin p) = Fin (tanh_double (Re (z * cnj p)))"
  by (simp add: ted_def np_tanh_def real_part_def np_conj_def)

lemma ted_NaN: "ted NaN p = NaN" "ted z NaN = NaN"
  by (simp_all add: ted_def np_tanh_def real_part_def np_conj_def)

lemma derivative_Fin: "derivative [Fin a, Fin b, Fin c] = Fin (a - c)"
  by (simp add: derivative_def zero_fl_def)

lemma tanh_double_near: "\<bar>tanh_double x - tanh x\<bar> \<le> 1 / 2 ^ 54"
proof -
  have "- 1 < tanh x" and "tanh x < 1"
    by (simp_all add: tanh_real_gt_neg1 tanh_real_lt_1)
  then show ?thesis
    by (simp add: tanh_double_def)
qed

text \<open>
  C3, as the program has it. The error detector runs on strobe cycles only: a cycle that
  is not a strobe leaves \<open>err\<close> as it was. On a strobe at index \<open>i\<close> the new value is the
  double \<open>tanh (Re (dz * cnj prev))\<close>, where \<open>dz\<close> is the derivative of the derivative
  buffer after the output of cycle \<open>i\<close> was pushed into it (the oldest of its three
  entries minus the newest), and \<open>prev\<close> is \<^verbatim>\<open>mf_samples[i-1]\<close>: the output that cycle
  \<open>i - 1\<close> stored, when there is such a cycle, and the zero the array was created with in
  the first cycle, \<open>i = 1\<close>, which no cycle precedes. A \<open>dz\<close> or \<open>prev\<close> that is not
  finite gives the error NaN.
\<close>

theorem ted_on_strobe:
  assumes "0 < sps" and "1 \<le> i" and "i < length xs"
  shows "(\<not> is_strobe sps (state_after sps alpha xs (i - 1)) \<longrightarrow>
            err (state_after sps alpha xs i) = err (state_after sps alpha xs (i - 1))) \<and>
         (is_strobe sps (state_after sps alpha xs (i - 1)) \<longrightarrow>
            (derivative (buf_dz (state_after sps alpha xs i)) = Fin z \<and>
             (case cycle_output sps alpha xs (i - 1) of Some y \<Rightarrow> y | None \<Rightarrow> 0) = Fin p \<longrightarrow>
               err (state_after sps alpha xs i) = Some (Fin (tanh_double (Re (z * cnj p)))) \<and>
               \<bar>tanh_double (Re (z * cnj p)) - tanh (Re (z * cnj p))\<bar> \<le> 1 / 2 ^ 54) \<and>
            (derivative (buf_dz (state_after sps alpha xs i)) = NaN \<or>
             (case cycle_output sps alpha xs (i - 1) of Some y \<Rightarrow> y | None \<Rightarrow> 0) = NaN \<longrightarrow>
               err (state_after sps alpha xs i) = Some NaN)) \<and>
         (cycle_output sps alpha xs (i - 1) = None \<longleftrightarrow> i = 1) \<and>
         buf_dz (state_after sps alpha xs i) =
           push (buf_dz (state_after sps alpha xs (i - 1))) (the (cycle_output sps alpha xs i)) \<and>
         (buf_dz (state_after sps alpha xs i) = [Fin a, Fin b, Fin c] \<longrightarrow>
            derivative (buf_dz (state_after sps alpha xs i)) = Fin (a - c))"
proof -
  let ?S = "state_after sps alpha xs"
  let ?prev = "case cycle_output sps alpha xs (i - 1) of Some y \<Rightarrow> y | None \<Rightarrow> 0"
  from assms(2) obtain k where i: "i = Suc k"
    by (cases i) simp_all
  have step: "?S i = body sps alpha xs i (?S (i - 1))"
    unfolding i by (simp add: state_after_Suc)
  have prev: "mf_samples (?S i) ! (i - 1) = ?prev"
    using assms(2,3) by (rule previous_output)
  have "err (?S (Suc k)) =
      (if sps \<le> counter (?S k) + 1
       then Some (ted (derivative (buf_dz (?S (Suc k)))) (mf_samples (?S (Suc k)) ! k))
       else err (?S k))"
    using err_body[of sps alpha xs "Suc k" "?S k"] by (simp add: state_after_Suc)
  then have e: "err (?S i) =
      (if is_strobe sps (?S (i - 1)) then Some (ted (derivative (buf_dz (?S i))) ?prev)
       else err (?S (i - 1)))"
    using prev unfolding i by (simp add: is_strobe_def)
  have c1: "\<not> is_strobe sps (?S (i - 1)) \<longrightarrow> err (?S i) = err (?S (i - 1))"
    using e by simp
  have c2: "is_strobe sps (?S (i - 1)) \<longrightarrow>
      (derivative (buf_dz (?S i)) = Fin z \<and> ?prev = Fin p \<longrightarrow>
         err (?S i) = Some (Fin (tanh_double (Re (z * cnj p)))) \<and>
         \<bar>tanh_double (Re (z * cnj p)) - tanh (Re (z * cnj p))\<bar> \<le> 1 / 2 ^ 54) \<and>
      (derivative (buf_dz (?S i)) = NaN \<or> ?prev = NaN \<longrightarrow> err (?S i) = Some NaN)"
    using e ted_Fin[of z p] ted_NaN tanh_double_near[of "Re (z * cnj p)"] by auto
  have c3: "cycle_output sps alpha xs (i - 1) = None \<longleftrightarrow> i = 1"
    using assms(2,3) by (auto simp: cycle_output_def)
  have "buf_dz (?S i) = push (buf_dz (?S (i - 1))) (mf_samples (?S i) ! i)"
    using buf_dz_body[of sps alpha xs "Suc k" "?S k"] unfolding i by (simp add: state_after_Suc)
  then have c4: "buf_dz (?S i) = push (buf_dz (?S (i - 1))) (the (cycle_output sps alpha xs i))"
    using cycle_output_stored[OF assms(2,3), of sps alpha] by simp
  have c5: "buf_dz (?S i) = [Fin a, Fin b, Fin c] \<longrightarrow> derivative (buf_dz (?S i)) = Fin (a - c)"
    by (simp add: derivative_Fin)
  from c1 c2 c3 c4 c5 show ?thesis
    by blast
qed

lemma cdemo_after_4:
  "state_after samples_per_symbol alpha_demo [Fin 0, Fin \<i>, Fin \<i>, Fin 0, Fin 0, Fin 0, Fin 0] 4 =
    \<lparr>tau = Fin 0, dtau = Fin 0, buf = [Fin 0, Fin \<i>, Fin \<i>, Fin 0, Fin 0], counter = 3,
     mf_samples = [Fin 0, Fin 0, Fin 0, Fin \<i>, Fin \<i>, Fin 0, Fin 0],
     buf_dz = [Fin 0, Fin \<i>, Fin \<i>],
     dtau_vect = [Fin 0, Fin 0, Fin 0, Fin 0, Fin 0, Fin 0, Fin 0],
     tau_vect = [Fin 0, Fin 0, Fin 0, Fin 0, Fin 0, Fin 0, Fin 0],
     err = Some (Fin 0)\<rparr>"
  by (simp add: state_after_num state_after_0) (simp add: eval_defs numeral_eq_Suc)

lemma cdemo_after_5:
  "buf_dz (state_after samples_per_symbol alpha_demo
      [Fin 0, Fin \<i>, Fin \<i>, Fin 0, Fin 0, Fin 0, Fin 0] 5) = [Fin \<i>, Fin \<i>, Fin 0]"
  "mf_samples (state_after samples_per_symbol alpha_demo
      [Fin 0, Fin \<i>, Fin \<i>, Fin 0, Fin 0, Fin 0, Fin 0] 5) =
     [Fin 0, Fin 0, Fin 0, Fin \<i>, Fin \<i>, Fin 0, Fin 0]"
  by (simp_all add: state_after_num[of 5] buf_dz_body mf_samples_body cdemo_after_4)
     (simp_all add: eval_defs)

theorem ted_on_strobe_witness:
  "0 < samples_per_symbol \<and> (1::nat) \<le> 5 \<and>
   5 < length [Fin 0, Fin \<i>, Fin \<i>, Fin 0, Fin 0, Fin 0, Fin 0] \<and>
   is_strobe samples_per_symbol
     (state_after samples_per_symbol alpha_demo [Fin 0, Fin \<i>, Fin \<i>, Fin 0, Fin 0, Fin 0, Fin 0] 4) \<and>
   buf_dz (state_after samples_per_symbol alpha_demo
     [Fin 0, Fin \<i>, Fin \<i>, Fin 0, Fin 0, Fin 0, Fin 0] 5) = [Fin \<i>, Fin \<i>, Fin 0] \<and>
   derivative (buf_dz (state_after samples_per_symbol alpha_demo
     [Fin 0, Fin \<i>, Fin \<i>, Fin 0, Fin 0, Fin 0, Fin 0] 5)) = Fin \<i> \<and>
   cycle_output samples_per_symbol alpha_demo
     [Fin 0, Fin \<i>, Fin \<i>, Fin 0, Fin 0, Fin 0, Fin 0] 4 = Some (Fin \<i>) \<and>
   err (state_after samples_per_symbol alpha_demo
     [Fin 0, Fin \<i>, Fin \<i>, Fin 0, Fin 0, Fin 0, Fin 0] 5) = Some (Fin (tanh 1))"
proof -
  let ?X = "[Fin 0, Fin \<i>, Fin \<i>, Fin 0, Fin 0, Fin 0, Fin (0::complex)]"
  let ?S = "state_after samples_per_symbol alpha_demo ?X"
  have pos: "0 < samples_per_symbol"
    by (simp add: samples_per_symbol_def)
  have i: "(1::nat) \<le> 5" and len: "5 < length ?X"
    by simp_all
  have st: "is_strobe samples_per_symbol (?S 4)"
    by (simp add: cdemo_after_4 is_strobe_def) (simp add: samples_per_symbol_def)
  have bdz: "buf_dz (?S 5) = [Fin \<i>, Fin \<i>, Fin 0]"
    by (simp add: cdemo_after_5)
  have prev: "cycle_output samples_per_symbol alpha_demo ?X 4 = Some (Fin \<i>)"
    by (simp add: cycle_output_stored cdemo_after_4)
  then have pv: "(case cycle_output samples_per_symbol alpha_demo ?X 4 of Some y \<Rightarrow> y | None \<Rightarrow> 0)
      = Fin \<i>"
    by (simp only: option.case)
  have four: "(5::nat) - 1 = 4"
    by simp
  note t = ted_on_strobe[OF pos i len, of alpha_demo \<i> \<i> \<i> \<i> 0, unfolded four]
  from t have "buf_dz (?S 5) = [Fin \<i>, Fin \<i>, Fin 0] \<longrightarrow>
      derivative (buf_dz (?S 5)) = Fin (\<i> - 0)"
    by blast
  with bdz have "derivative (buf_dz (?S 5)) = Fin (\<i> - 0)"
    by blast
  then have dz: "derivative (buf_dz (?S 5)) = Fin \<i>"
    by simp
  from t st dz pv have "err (?S 5) = Some (Fin (tanh_double (Re (\<i> * cnj \<i>))))"
    by blast
  then have e: "err (?S 5) = Some (Fin (tanh 1))"
    by simp
  from pos i len st bdz dz prev e show ?thesis
    by blast
qed

text \<open>
  The claim C3 as it is written fails in the first cycle of the loop, which is a strobe
  for the demo constants on every input of two samples or more: the error detector runs,
  but no sample cycle precedes the cycle and there is no interpolated output of a
  preceding cycle; its second operand is the zero that \<^verbatim>\<open>mf_samples[0]\<close> was created
  with.
\<close>

theorem ted_on_strobe_counterexample:
  "is_strobe samples_per_symbol
     (state_after samples_per_symbol alpha_demo [Fin 0, Fin 1, Fin 1] 0) \<and>
   err (state_after samples_per_symbol alpha_demo [Fin 0, Fin 1, Fin 1] 0) = None \<and>
   err (state_after samples_per_symbol alpha_demo [Fin 0, Fin 1, Fin 1] 1) = Some (Fin 0) \<and>
   cycle_output samples_per_symbol alpha_demo [Fin 0, Fin 1, Fin 1] 0 = None \<and>
   mf_samples (state_after samples_per_symbol alpha_demo [Fin 0, Fin 1, Fin 1] 1) ! 0 = Fin 0"
  by (simp add: state_after_num state_after_0 cycle_output_def) (simp add: eval_defs)

section \<open>The first sample\<close>

lemma index_0_kept:
  assumes "0 < length xs"
  shows "mf_samples (state_after sps alpha xs k) ! 0 = 0 \<and>
         tau_vect (state_after sps alpha xs k) ! 0 = 0 \<and>
         dtau_vect (state_after sps alpha xs k) ! 0 = 0"
proof (induction k)
  case 0
  from assms show ?case
    by (simp add: state_after_0 init_def)
next
  case (Suc k)
  then show ?case
    by (simp add: state_after_Suc mf_samples_body tau_vect_body dtau_vect_body)
qed

lemma body_first_sample:
  "body sps alpha (y # zs) (Suc k) s = body sps alpha (x # zs) (Suc k) s"
  by (simp add: body_def before_drift_def)

lemma state_after_first_sample:
  "state_after sps alpha (y # zs) k = state_after sps alpha (x # zs) k"
  by (induction k) (simp_all add: state_after_0 state_after_Suc body_first_sample)

lemma buf_state_after:
  assumes "k \<le> length (tl xs)"
  shows "buf (state_after sps alpha xs k) =
    drop k (replicate 5 0 @ map complex64 (take k (tl xs)))"
  using assms
proof (induction k)
  case 0
  then show ?case
    by (simp add: state_after_0 init_def)
next
  case (Suc k)
  then have k: "k < length (tl xs)"
    and IH: "buf (state_after sps alpha xs k) =
      drop k (replicate 5 0 @ map complex64 (take k (tl xs)))"
    by simp_all
  have x: "xs ! Suc k = tl xs ! k"
    using k by (cases xs) simp_all
  have "buf (state_after sps alpha xs (Suc k)) =
      tl (drop k (replicate 5 0 @ map complex64 (take k (tl xs)))) @ [complex64 (tl xs ! k)]"
    by (simp add: state_after_Suc buf_body push_eq IH x)
  also have "\<dots> = drop (Suc k) (replicate 5 0 @ map complex64 (take k (tl xs))) @
      [complex64 (tl xs ! k)]"
    by (simp only: drop_Suc tl_drop)
  also have "\<dots> = drop (Suc k) ((replicate 5 0 @ map complex64 (take k (tl xs))) @
      [complex64 (tl xs ! k)])"
    using k by simp
  also have "\<dots> = drop (Suc k) (replicate 5 0 @ map complex64 (take (Suc k) (tl xs)))"
    using k by (simp add: take_Suc_conv_app_nth)
  finally show ?case .
qed

text \<open>
  C10. The loop starts at index 1. The entries at index 0 of the interpolated output and
  of the two trajectories keep the zero they were created with; the loop runs exactly
  \<open>len xs - 1\<close> cycles, which push the samples 1 to \<open>len xs - 1\<close> into the raw buffer in
  their order, each through the store of line 83; and the first sample is never read:
  replacing it by any other value \<open>y\<close> changes nothing.
\<close>

theorem first_sample_skipped:
  assumes "0 < sps" and "xs \<noteq> []"
  shows "mf_samples (timing_recovery sps alpha xs) ! 0 = 0 \<and>
         tau_vect (timing_recovery sps alpha xs) ! 0 = 0 \<and>
         dtau_vect (timing_recovery sps alpha xs) ! 0 = 0 \<and>
         timing_recovery sps alpha xs = state_after sps alpha xs (length xs - 1) \<and>
         buf (timing_recovery sps alpha xs) =
           drop (length xs - 1) (replicate 5 0 @ map complex64 (tl xs)) \<and>
         timing_recovery sps alpha (y # tl xs) = timing_recovery sps alpha xs"
proof -
  from assms(2) obtain x zs where xs: "xs = x # zs"
    by (cases xs) simp_all
  have len: "0 < length xs"
    using assms(2) by simp
  have "buf (state_after sps alpha xs (length xs - 1)) =
      drop (length xs - 1) (replicate 5 0 @ map complex64 (take (length xs - 1) (tl xs)))"
    by (rule buf_state_after) simp
  then have b: "buf (state_after sps alpha xs (length xs - 1)) =
      drop (length xs - 1) (replicate 5 0 @ map complex64 (tl xs))"
    by simp
  have "timing_recovery sps alpha (y # tl xs) = timing_recovery sps alpha xs"
    unfolding xs by (simp add: timing_recovery_state_after state_after_first_sample[of sps alpha y zs _ x])
  with index_0_kept[OF len, of sps alpha "length xs - 1"] b show ?thesis
    by (simp add: timing_recovery_state_after)
qed

theorem first_sample_skipped_witness:
  "0 < samples_per_symbol \<and> [Fin 0, Fin 1, Fin 1, Fin 0, Fin 0, Fin 0, Fin (0::complex)] \<noteq> [] \<and>
   mf_samples (timing_recovery samples_per_symbol alpha_demo
     [Fin 0, Fin 1, Fin 1, Fin 0, Fin 0, Fin 0, Fin 0]) ! 0 = Fin 0 \<and>
   tau_vect (timing_recovery samples_per_symbol alpha_demo
     [Fin 0, Fin 1, Fin 1, Fin 0, Fin 0, Fin 0, Fin 0]) ! 0 = Fin 0 \<and>
   dtau_vect (timing_recovery samples_per_symbol alpha_demo
     [Fin 0, Fin 1, Fin 1, Fin 0, Fin 0, Fin 0, Fin 0]) ! 0 = Fin 0 \<and>
   timing_recovery samples_per_symbol alpha_demo [Fin 0, Fin 1, Fin 1, Fin 0, Fin 0, Fin 0, Fin 0] =
     state_after samples_per_symbol alpha_demo [Fin 0, Fin 1, Fin 1, Fin 0, Fin 0, Fin 0, Fin 0] 6 \<and>
   buf (timing_recovery samples_per_symbol alpha_demo
     [Fin 0, Fin 1, Fin 1, Fin 0, Fin 0, Fin 0, Fin 0]) = [Fin 1, Fin 0, Fin 0, Fin 0, Fin 0] \<and>
   timing_recovery samples_per_symbol alpha_demo [NaN, Fin 1, Fin 1, Fin 0, Fin 0, Fin 0, Fin 0] =
     timing_recovery samples_per_symbol alpha_demo [Fin 0, Fin 1, Fin 1, Fin 0, Fin 0, Fin 0, Fin 0]"
proof -
  have pos: "0 < samples_per_symbol"
    by (simp add: samples_per_symbol_def)
  have ne: "[Fin 0, Fin 1, Fin 1, Fin 0, Fin 0, Fin 0, Fin (0::complex)] \<noteq> []"
    by simp
  have e1: "length [Fin 0, Fin 1, Fin 1, Fin 0, Fin 0, Fin 0, Fin (0::complex)] - 1 = 6"
    by simp
  have e2: "drop 6 (replicate 5 (Fin 0) @
      map complex64 (tl [Fin 0, Fin 1, Fin 1, Fin 0, Fin 0, Fin 0, Fin (0::complex)])) =
      [Fin 1, Fin 0, Fin 0, Fin 0, Fin 0]"
    by (simp add: replicate5)
  have e3: "NaN # tl [Fin 0, Fin 1, Fin 1, Fin 0, Fin 0, Fin 0, Fin (0::complex)] =
      [NaN, Fin 1, Fin 1, Fin 0, Fin 0, Fin 0, Fin 0]"
    by simp
  from first_sample_skipped[OF pos ne, of alpha_demo NaN, unfolded e1 zero_fl_def e2 e3] pos ne
  show ?thesis
    by blast
qed

section \<open>The interpolating filter\<close>

lemma hi_formula:
  "hi t = map (\<lambda>n. np_sinc (Fin (real n - 2) - t) * Fin (sqrt (hamming 5 n))) [0..<5]"
  by (simp add: hi_def th_def w_def upt5)

lemma hamming_windowed_sinc_Fin:
  "hamming_windowed_sinc (Fin t) = [Fin (sinc (- 2 - t) * 0.08), Fin (sinc (- 1 - t) * 0.54),
     Fin (sinc (- t)), Fin (sinc (1 - t) * 0.54), Fin (sinc (2 - t) * 0.08)]"
  by (simp add: hamming_windowed_sinc_def upt5 np_sinc_def hamming5 hamming5(2)[unfolded One_nat_def])

lemma sinc_nonzero:
  assumes "0 < t" and "t < 1"
  shows "sinc (2 - t) \<noteq> 0"
proof -
  have "pi * 1 < pi * (2 - t)" and "pi * (2 - t) < pi * 2"
    using assms by (simp_all del: mult_1_right)
  then have "sin (pi * (2 - t)) < 0"
    by (intro sin_lt_zero) (simp_all add: mult.commute)
  moreover have "pi * (2 - t) \<noteq> 0"
    using assms by simp
  ultimately show ?thesis
    using assms by (simp add: sinc_def)
qed

lemma sqrt_window_differs: "sqrt 0.08 \<noteq> (0.08::real)"
proof
  assume e: "sqrt 0.08 = (0.08::real)"
  have "(sqrt (0.08::real))\<^sup>2 = 0.08"
    by simp
  then have "(0.08::real)\<^sup>2 = 0.08"
    unfolding e .
  then show False
    by (simp add: power2_eq_square)
qed

lemma demo_tau_5:
  obtains t where "tau (state_after samples_per_symbol alpha_demo
      [Fin 0, Fin 1, Fin 1, Fin 0, Fin 0, Fin 0, Fin 0] 5) = Fin t" and "0 < t" and "t < 1"
proof -
  let ?t = "alpha_demo * tanh 1 + 2 * sqrt alpha_demo * tanh 1 + alpha_demo * tanh 1 / 4"
  have th0: "0 < tanh (1::real)" and th1: "tanh (1::real) < 1"
    by (simp_all add: tanh_real_lt_1)
  have "sqrt alpha_demo < sqrt ((1/4)\<^sup>2)"
    unfolding alpha_demo_def by (intro real_sqrt_less_mono) (simp add: power2_eq_square)
  then have s1: "sqrt alpha_demo < 1/4"
    by simp
  have s0: "0 < sqrt alpha_demo"
    by (simp add: alpha_demo_def)
  have eq: "?t = tanh 1 * (alpha_demo + 2 * sqrt alpha_demo + alpha_demo / 4)"
    by (simp add: algebra_simps)
  have a0: "0 < alpha_demo" and a1: "alpha_demo + alpha_demo / 4 < 1 / 2"
    by (simp_all add: alpha_demo_def)
  have pos: "0 < alpha_demo + 2 * sqrt alpha_demo + alpha_demo / 4"
    using s0 a0 by linarith
  have lt: "alpha_demo + 2 * sqrt alpha_demo + alpha_demo / 4 < 1"
    using s1 a1 by linarith
  have "0 < ?t"
    unfolding eq using th0 pos by (rule mult_pos_pos)
  moreover have "?t < 1"
  proof -
    have "tanh 1 * (alpha_demo + 2 * sqrt alpha_demo + alpha_demo / 4) < 1 * 1"
      using th0 th1 pos lt by (intro mult_strict_mono) simp_all
    then show ?thesis
      unfolding eq by simp
  qed
  moreover have "tau (state_after samples_per_symbol alpha_demo
      [Fin 0, Fin 1, Fin 1, Fin 0, Fin 0, Fin 0, Fin 0] 5) = Fin ?t"
    by (simp add: demo_after_5)
  ultimately show ?thesis
    using that by blast
qed

lemma length_buf_state_after:
  assumes "k \<le> length (tl xs)"
  shows "length (buf (state_after sps alpha xs k)) = 5"
  using assms by (simp add: buf_state_after)

text \<open>
  C5, as the program has it. In every cycle the kernel is the sinc at the offsets
  -2, -1, 0, 1, 2 shifted by \<open>- tau\<close>, each tap multiplied by the square root of the
  Hamming window (line 70 takes \<^verbatim>\<open>np.sqrt\<close> of \<^verbatim>\<open>np.hamming(5)\<close>), with the \<open>tau\<close>
  the cycle starts with. The output is the inner product of the raw buffer, which holds
  five samples and has just received the new one, with the reversed kernel; the kernel is
  not divided by its sum.
\<close>

theorem interpolator_output:
  assumes "0 < sps" and "1 \<le> i" and "i < length xs"
  shows "mf_samples (state_after sps alpha xs i) ! i =
           complex64 (dot (buf (state_after sps alpha xs i))
             (map to_complex (rev (hi (tau (state_after sps alpha xs (i - 1))))))) \<and>
         hi (tau (state_after sps alpha xs (i - 1))) =
           map (\<lambda>n. np_sinc (Fin (real n - 2) - tau (state_after sps alpha xs (i - 1)))
                  * Fin (sqrt (hamming 5 n))) [0..<5] \<and>
         length (buf (state_after sps alpha xs i)) = 5 \<and>
         buf (state_after sps alpha xs i) =
           tl (buf (state_after sps alpha xs (i - 1))) @ [complex64 (xs ! i)]"
proof -
  from assms(2) obtain k where i: "i = Suc k"
    by (cases i) simp_all
  have "Suc k \<le> length (tl xs)"
    using assms(3) i by (cases xs) simp_all
  then have "length (buf (state_after sps alpha xs (Suc k))) = 5"
    by (rule length_buf_state_after)
  moreover have "mf_samples (state_after sps alpha xs (Suc k)) ! Suc k =
      complex64 (dot (buf (state_after sps alpha xs (Suc k)))
        (map to_complex (rev (hi (tau (state_after sps alpha xs k))))))"
    using assms(3) i by (simp add: mf_samples_current interpolate_def)
  moreover have "buf (state_after sps alpha xs (Suc k)) =
      tl (buf (state_after sps alpha xs k)) @ [complex64 (xs ! Suc k)]"
    by (simp add: state_after_Suc buf_body push_eq)
  ultimately show ?thesis
    unfolding i using hi_formula[of "tau (state_after sps alpha xs k)"] by simp
qed

lemma demo_buf_6:
  "buf (state_after samples_per_symbol alpha_demo
     [Fin 0, Fin 1, Fin 1, Fin 0, Fin 0, Fin 0, Fin 0] 6) = [Fin 1, Fin 0, Fin 0, Fin 0, Fin 0]"
  by (simp add: state_after_num[of 6] buf_body push_eq demo_after_5)

theorem interpolator_output_witness:
  "0 < samples_per_symbol \<and> (1::nat) \<le> 6 \<and>
   6 < length [Fin 0, Fin 1, Fin 1, Fin 0, Fin 0, Fin 0, Fin (0::complex)] \<and>
   mf_samples (state_after samples_per_symbol alpha_demo
       [Fin 0, Fin 1, Fin 1, Fin 0, Fin 0, Fin 0, Fin 0] 6) ! 6 =
     complex64 (dot [Fin 1, Fin 0, Fin 0, Fin 0, Fin 0]
       (map to_complex (rev (hi (tau (state_after samples_per_symbol alpha_demo
          [Fin 0, Fin 1, Fin 1, Fin 0, Fin 0, Fin 0, Fin 0] 5)))))) \<and>
   length (buf (state_after samples_per_symbol alpha_demo
       [Fin 0, Fin 1, Fin 1, Fin 0, Fin 0, Fin 0, Fin 0] 6)) = 5"
proof -
  let ?X = "[Fin 0, Fin 1, Fin 1, Fin 0, Fin 0, Fin 0, Fin (0::complex)]"
  have pos: "0 < samples_per_symbol"
    by (simp add: samples_per_symbol_def)
  have l: "(1::nat) \<le> 6" and u: "6 < length ?X" and n: "(6::nat) - 1 = 5"
    by simp_all
  note t = interpolator_output[OF pos l u, of alpha_demo, unfolded n]
  from t have c1: "mf_samples (state_after samples_per_symbol alpha_demo ?X 6) ! 6 =
      complex64 (dot (buf (state_after samples_per_symbol alpha_demo ?X 6))
        (map to_complex (rev (hi (tau (state_after samples_per_symbol alpha_demo ?X 5))))))"
    and c3: "length (buf (state_after samples_per_symbol alpha_demo ?X 6)) = 5"
    by blast+
  from pos l u c1[unfolded demo_buf_6] c3 show ?thesis
    by blast
qed

text \<open>
  The claim C5 as it is written, with the Hamming window itself on the taps, fails on the
  sixth cycle of the run above: \<open>tau\<close> is then strictly between 0 and 1, the raw buffer
  is \<open>[1, 0, 0, 0, 0]\<close>, and the output is the last tap of the kernel, where
  \<open>sqrt 0.08\<close> is not \<open>0.08\<close>.
\<close>

theorem interpolator_kernel_counterexample:
  "hi (tau (state_after samples_per_symbol alpha_demo
       [Fin 0, Fin 1, Fin 1, Fin 0, Fin 0, Fin 0, Fin 0] 5)) \<noteq>
   hamming_windowed_sinc (tau (state_after samples_per_symbol alpha_demo
       [Fin 0, Fin 1, Fin 1, Fin 0, Fin 0, Fin 0, Fin 0] 5)) \<and>
   mf_samples (state_after samples_per_symbol alpha_demo
       [Fin 0, Fin 1, Fin 1, Fin 0, Fin 0, Fin 0, Fin 0] 6) ! 6 \<noteq>
     complex64 (dot (buf (state_after samples_per_symbol alpha_demo
            [Fin 0, Fin 1, Fin 1, Fin 0, Fin 0, Fin 0, Fin 0] 6))
       (map to_complex (rev (hamming_windowed_sinc (tau (state_after samples_per_symbol alpha_demo
          [Fin 0, Fin 1, Fin 1, Fin 0, Fin 0, Fin 0, Fin 0] 5))))))"
proof -
  let ?X = "[Fin 0, Fin 1, Fin 1, Fin 0, Fin 0, Fin 0, Fin (0::complex)]"
  obtain t where t: "tau (state_after samples_per_symbol alpha_demo ?X 5) = Fin t"
    and t0: "0 < t" and t1: "t < 1"
    by (rule demo_tau_5)
  have nz: "sinc (2 - t) \<noteq> 0"
    using t0 t1 by (rule sinc_nonzero)
  have tap: "sinc (2 - t) * sqrt 0.08 \<noteq> sinc (2 - t) * 0.08"
    using nz sqrt_window_differs by simp
  have out: "mf_samples (state_after samples_per_symbol alpha_demo ?X 6) ! 6 =
      complex64 (dot [Fin 1, Fin 0, Fin 0, Fin 0, Fin 0] (map to_complex (rev (hi (Fin t)))))"
    using mf_samples_current[of 5 ?X samples_per_symbol alpha_demo]
    by (simp add: interpolate_def demo_buf_6 t)
  have k1: "dot [Fin 1, Fin 0, Fin 0, Fin 0, Fin 0] (map to_complex (rev (hi (Fin t)))) =
      Fin (complex_of_real (sinc (2 - t) * sqrt 0.08))"
    by (simp add: hi_Fin to_complex_def zero_fl_def)
  have k2: "dot [Fin 1, Fin 0, Fin 0, Fin 0, Fin 0]
      (map to_complex (rev (hamming_windowed_sinc (Fin t)))) =
      Fin (complex_of_real (sinc (2 - t) * 0.08))"
    by (simp add: hamming_windowed_sinc_Fin to_complex_def zero_fl_def)
  have c1: "complex64 (Fin (complex_of_real (sinc (2 - t) * sqrt 0.08))) =
      Fin (complex_of_real (sinc (2 - t) * sqrt 0.08))"
    by (intro complex64_of_real abs_tap_le_1) simp_all
  have c2: "complex64 (Fin (complex_of_real (sinc (2 - t) * 0.08))) =
      Fin (complex_of_real (sinc (2 - t) * 0.08))"
    by (intro complex64_of_real abs_tap_le_1) simp_all
  have "hi (Fin t) \<noteq> hamming_windowed_sinc (Fin t)"
    using tap by (simp add: hi_Fin hamming_windowed_sinc_Fin)
  moreover have "Fin (complex_of_real (sinc (2 - t) * sqrt 0.08)) \<noteq>
      Fin (complex_of_real (sinc (2 - t) * 0.08))"
    using tap by (simp only: fl.inject of_real_eq_iff simp_thms)
  ultimately show ?thesis
    unfolding out demo_buf_6 t k1 k2 c1 c2 by blast
qed

section \<open>A sample that is not finite\<close>






















end
